theory Spec2Isabelle
  imports Complex_Main
begin

section \<open>The batch submission script\<close>

text \<open>
  The script \<open>submit\<close>, line by line. The part holding it opens with the banner line
  \<open>=== submit ===\<close> that carries the file's name and closes with a document separator;
  neither is script text, so the script starts at the interpreter line (line 2 of the part)
  and ends at the \<open>srun\<close> line (line 15).
\<close>

definition submit :: "string list" where
  "submit =
    [''#!/bin/bash'',
     ''#SBATCH --job-name=modulus-test'',
     ''#SBATCH --nodes=1'',
     ''#SBATCH --ntasks=8'',
     ''#SBATCH --mem-per-cpu=7000mb'',
     ''#SBATCH --partition=gpu'',
     ''#SBATCH --gpus=a100:8'',
     ''#SBATCH --time=12:30:00'',
     '''',
     ''module purge'',
     ''module load ufrc modulus'',
     '''',
     ''#srun --unbuffered --mpi=none -n 8 python lennard_jones_system.py'',
     ''srun --mpi=none -n 8 python lennard_jones_system.py'']"

subsection \<open>Reading the text\<close>

definition starts_with :: "string \<Rightarrow> string \<Rightarrow> bool" where
  "starts_with p s = (take (length p) s = p)"

text \<open>Cut a string at the first occurrence of a separator; the separator is dropped.\<close>

definition cut_at :: "char \<Rightarrow> string \<Rightarrow> string \<times> string" where
  "cut_at c s = (takeWhile (\<lambda>d. d \<noteq> c) s, drop 1 (dropWhile (\<lambda>d. d \<noteq> c) s))"

text \<open>Split a string at every occurrence of a separator.\<close>

fun split_on :: "char \<Rightarrow> string \<Rightarrow> string list" where
  "split_on c [] = [[]]"
| "split_on c (d # ds) =
     (if d = c then [] # split_on c ds
      else (case split_on c ds of
              [] \<Rightarrow> [[d]]
            | w # ws \<Rightarrow> (d # w) # ws))"

text \<open>The shell's words: the pieces between blanks, empty pieces dropped.\<close>

definition shell_words :: "string \<Rightarrow> string list" where
  "shell_words s = filter (\<lambda>w. w \<noteq> []) (split_on CHR '' '' s)"

definition is_digit :: "char \<Rightarrow> bool" where
  "is_digit c = (c \<in> set ''0123456789'')"

definition digit_val :: "char \<Rightarrow> nat" where
  "digit_val c = of_char c - 48"

text \<open>A decimal numeral; anything else is no number.\<close>

definition nat_of_string :: "string \<Rightarrow> nat option" where
  "nat_of_string s =
     (if s \<noteq> [] \<and> list_all is_digit s
      then Some (foldl (\<lambda>n c. 10 * n + digit_val c) 0 s)
      else None)"

definition is_blank :: "string \<Rightarrow> bool" where
  "is_blank s = list_all (\<lambda>c. c = CHR '' '') s"

definition is_comment :: "string \<Rightarrow> bool" where
  "is_comment s = starts_with ''#'' (dropWhile (\<lambda>c. c = CHR '' '') s)"

subsection \<open>Scheduler directives\<close>

text \<open>
  The scheduler reads the \<open>#SBATCH\<close> lines that stand before the first command of the
  script. Each is an option \<open>--name=value\<close>.
\<close>

definition script_header :: "string list \<Rightarrow> string list" where
  "script_header ls = takeWhile (\<lambda>l. is_blank l \<or> is_comment l) ls"

definition sbatch_directives :: "string list \<Rightarrow> (string \<times> string) list" where
  "sbatch_directives ls =
     map (\<lambda>l. cut_at CHR ''='' (drop (length ''#SBATCH --'') l))
       (filter (starts_with ''#SBATCH --'') (script_header ls))"

text \<open>
  A resource request, one constructor for each option the script uses. Memory is asked
  per allocated CPU, in megabytes; the time limit is hours, minutes, seconds.
\<close>

datatype request =
    JobName string
  | Nodes nat
  | NTasks nat
  | MemPerCpu nat
  | Partition string
  | Gpus string nat
  | TimeLimit nat nat nat

definition parse_mem :: "string \<Rightarrow> nat option" where
  "parse_mem v =
     (if dropWhile is_digit v = ''mb'' then nat_of_string (takeWhile is_digit v) else None)"

definition parse_gpus :: "string \<Rightarrow> (string \<times> nat) option" where
  "parse_gpus v =
     (case split_on CHR '':'' v of
        [ty, n] \<Rightarrow> map_option (\<lambda>k. (ty, k)) (nat_of_string n)
      | _ \<Rightarrow> None)"

definition parse_time :: "string \<Rightarrow> (nat \<times> nat \<times> nat) option" where
  "parse_time v =
     (case map nat_of_string (split_on CHR '':'' v) of
        [Some h, Some m, Some s] \<Rightarrow> Some (h, m, s)
      | _ \<Rightarrow> None)"

definition parse_request :: "string \<times> string \<Rightarrow> request option" where
  "parse_request d =
     (let k = fst d; v = snd d in
      if k = ''job-name'' then Some (JobName v)
      else if k = ''nodes'' then map_option Nodes (nat_of_string v)
      else if k = ''ntasks'' then map_option NTasks (nat_of_string v)
      else if k = ''mem-per-cpu'' then map_option MemPerCpu (parse_mem v)
      else if k = ''partition'' then Some (Partition v)
      else if k = ''gpus'' then map_option (\<lambda>(ty, n). Gpus ty n) (parse_gpus v)
      else if k = ''time'' then map_option (\<lambda>(h, m, s). TimeLimit h m s) (parse_time v)
      else None)"

definition requests :: "string list \<Rightarrow> request option list" where
  "requests ls = map parse_request (sbatch_directives ls)"

text \<open>
  The figures of a job. A task has one CPU unless the script asks for more, and the script
  has no \<open>cpus-per-task\<close> directive; so the memory of a task is the memory of one CPU.
\<close>

definition directive :: "string list \<Rightarrow> string \<Rightarrow> string option" where
  "directive ls k = map_of (sbatch_directives ls) k"

definition declared_tasks :: "string list \<Rightarrow> nat option" where
  "declared_tasks ls = Option.bind (directive ls ''ntasks'') nat_of_string"

definition declared_gpus :: "string list \<Rightarrow> (string \<times> nat) option" where
  "declared_gpus ls = Option.bind (directive ls ''gpus'') parse_gpus"

definition cpus_per_task :: "string list \<Rightarrow> nat option" where
  "cpus_per_task ls =
     (case directive ls ''cpus-per-task'' of None \<Rightarrow> Some 1 | Some v \<Rightarrow> nat_of_string v)"

definition mem_per_task :: "string list \<Rightarrow> nat option" where
  "mem_per_task ls =
     Option.bind (Option.bind (directive ls ''mem-per-cpu'') parse_mem)
       (\<lambda>m. map_option (\<lambda>c. m * c) (cpus_per_task ls))"

subsection \<open>Commands and the launch\<close>

text \<open>The commands of the script: the lines that are neither blank nor comments.\<close>

definition commands :: "string list \<Rightarrow> string list list" where
  "commands ls = map shell_words (filter (\<lambda>l. \<not> is_blank l \<and> \<not> is_comment l) ls)"

definition launches :: "string list \<Rightarrow> string list list" where
  "launches ls = filter (\<lambda>c. take 1 c = [''srun'']) (commands ls)"

text \<open>
  The arguments of \<open>srun\<close>: options first, then the command to run. A long option is
  \<open>--name=value\<close> or a bare \<open>--name\<close>; \<open>-n\<close> takes the next word as its value.
\<close>

record launch =
  opts :: "(string \<times> string) list"
  cmd :: "string list"

fun parse_args :: "string list \<Rightarrow> launch" where
  "parse_args [] = \<lparr>opts = [], cmd = []\<rparr>"
| "parse_args (w # ws) =
     (if starts_with ''--'' w then
        (let r = parse_args ws in r\<lparr>opts := cut_at CHR ''='' w # opts r\<rparr>)
      else if w = ''-n'' then
        (case ws of
           [] \<Rightarrow> \<lparr>opts = [(w, [])], cmd = []\<rparr>
         | v # rest \<Rightarrow> (let r = parse_args rest in r\<lparr>opts := (w, v) # opts r\<rparr>))
      else \<lparr>opts = [], cmd = w # ws\<rparr>)"

definition parse_srun :: "string list \<Rightarrow> launch option" where
  "parse_srun c = (case c of [] \<Rightarrow> None | w # ws \<Rightarrow> if w = ''srun'' then Some (parse_args ws) else None)"

definition the_launch :: "string list \<Rightarrow> launch option" where
  "the_launch ls = (case launches ls of [c] \<Rightarrow> parse_srun c | _ \<Rightarrow> None)"

definition launch_tasks :: "launch \<Rightarrow> nat option" where
  "launch_tasks l = Option.bind (map_of (opts l) ''-n'') nat_of_string"

text \<open>
  The options of \<open>srun\<close> that bind processes to resources. \<open>--mpi\<close> is not one of
  them: it names the MPI plugin the launch uses.
\<close>

definition binding_options :: "string list" where
  "binding_options =
     [''--cpu-bind'', ''--cpu_bind'', ''--mem-bind'', ''--mem_bind'', ''--gpu-bind'', ''--accel-bind'']"

definition binding_mode :: "launch \<Rightarrow> string option" where
  "binding_mode l = map_option snd (find (\<lambda>p. fst p \<in> set binding_options) (opts l))"

definition mpi_type :: "launch \<Rightarrow> string option" where
  "mpi_type l = map_of (opts l) ''--mpi''"

text \<open>The command is an interpreter followed by the script it runs.\<close>

definition target_script :: "launch \<Rightarrow> string option" where
  "target_script l = (case cmd l of i # p # _ \<Rightarrow> Some p | _ \<Rightarrow> None)"

subsection \<open>Running the script\<close>

text \<open>
  The shell runs the commands in order. What a command does is not the script's: an
  executor takes the environment and the command's words and returns the new environment
  and the exit status. The script sets no \<open>errexit\<close>, so a failed command does not stop
  it, and the status of the script is the status of its last command. The scheduler marks
  the job failed when that status is not zero.
\<close>

type_synonym 'env executor = "'env \<Rightarrow> string list \<Rightarrow> 'env \<times> nat"

fun run_commands :: "'env executor \<Rightarrow> 'env \<times> nat \<Rightarrow> string list list \<Rightarrow> 'env \<times> nat" where
  "run_commands exec st [] = st"
| "run_commands exec st (c # cs) = run_commands exec (exec (fst st) c) cs"

definition run_script :: "'env executor \<Rightarrow> 'env \<Rightarrow> string list \<Rightarrow> 'env \<times> nat" where
  "run_script exec env ls = run_commands exec (env, 0) (commands ls)"

definition exit_status :: "'env executor \<Rightarrow> 'env \<Rightarrow> string list \<Rightarrow> nat" where
  "exit_status exec env ls = snd (run_script exec env ls)"

definition job_failed :: "'env executor \<Rightarrow> 'env \<Rightarrow> string list \<Rightarrow> bool" where
  "job_failed exec env ls = (exit_status exec env ls \<noteq> 0)"

text \<open>The environment in which the last command starts.\<close>

definition env_at_last :: "'env executor \<Rightarrow> 'env \<Rightarrow> string list \<Rightarrow> 'env" where
  "env_at_last exec env ls = fst (run_commands exec (env, 0) (butlast (commands ls)))"

text \<open>
  What would make the script react to a failure: a reserved word or builtin of the shell
  that branches, loops, traps, waits or leaves, or a word with a control operator in it
  (\<open>||\<close>, \<open>&&\<close>, \<open>;\<close>, \<open>&\<close>, \<open>|\<close>).
\<close>

definition handling_words :: "string list" where
  "handling_words =
     [''if'', ''then'', ''elif'', ''else'', ''fi'', ''case'', ''esac'', ''for'', ''while'',
      ''until'', ''do'', ''done'', ''trap'', ''set'', ''exit'', ''return'', ''sleep'',
      ''wait'', ''scontrol'', ''sbatch'']"

definition is_handling_word :: "string \<Rightarrow> bool" where
  "is_handling_word w = (w \<in> set handling_words \<or> list_ex (\<lambda>c. c \<in> set ''|&;'') w)"

definition handlers :: "string list \<Rightarrow> string list" where
  "handlers ls = filter is_handling_word (concat (commands ls))"


section \<open>The configuration file\<close>

text \<open>
  \<open>config.yaml\<close>, as the notebook prints it. A scalar keeps the text the file has.
\<close>

datatype yaml =
    YScalar string
  | YList "yaml list"
  | YMap "(string \<times> yaml) list"

definition config_yaml :: yaml where
  "config_yaml =
     YMap
      [(''defaults'',
          YList
           [YScalar ''modulus_default'',
            YMap [(''scheduler'', YScalar ''tf_exponential_lr'')],
            YMap [(''optimizer'', YScalar ''adam'')],
            YMap [(''loss'', YScalar ''sum'')],
            YScalar ''_self_'']),
       (''scheduler'',
          YMap [(''decay_rate'', YScalar ''0.95''), (''decay_steps'', YScalar ''200'')]),
       (''save_filetypes'', YScalar ''vtk,npz''),
       (''training'',
          YMap
           [(''rec_results_freq'', YScalar ''1000''),
            (''rec_constraint_freq'', YScalar ''1000''),
            (''max_steps'', YScalar ''5000'')])]"

definition top_keys :: "yaml \<Rightarrow> string list" where
  "top_keys y = (case y of YMap kvs \<Rightarrow> map fst kvs | _ \<Rightarrow> [])"

definition field :: "yaml \<Rightarrow> string \<Rightarrow> yaml option" where
  "field y k = (case y of YMap kvs \<Rightarrow> map_of kvs k | _ \<Rightarrow> None)"

text \<open>
  An entry of the defaults list: the name of a config, the choice of an option of a config
  group, or the keyword \<open>_self_\<close>, which names no config but marks where the file's own
  values stand in the order of composition.
\<close>

datatype default_entry =
    ConfigName string
  | GroupChoice string string
  | SelfEntry

definition default_entry_of :: "yaml \<Rightarrow> default_entry option" where
  "default_entry_of y =
     (case y of
        YScalar s \<Rightarrow> Some (if s = ''_self_'' then SelfEntry else ConfigName s)
      | YMap [(g, YScalar v)] \<Rightarrow> Some (GroupChoice g v)
      | _ \<Rightarrow> None)"

definition defaults_list :: "yaml \<Rightarrow> default_entry option list" where
  "defaults_list y =
     (case field y ''defaults'' of Some (YList es) \<Rightarrow> map default_entry_of es | _ \<Rightarrow> [])"

fun names_config :: "default_entry option \<Rightarrow> bool" where
  "names_config (Some (ConfigName n)) = True"
| "names_config (Some (GroupChoice g v)) = True"
| "names_config _ = False"

text \<open>The settings of a section: its keys with their scalars, the key path in front.\<close>

definition section_settings :: "string \<Rightarrow> yaml \<Rightarrow> (string list \<times> string) list" where
  "section_settings k y =
     (case y of
        YScalar s \<Rightarrow> [([k], s)]
      | YMap kvs \<Rightarrow>
          concat (map (\<lambda>(k', v). case v of YScalar s \<Rightarrow> [([k, k'], s)] | _ \<Rightarrow> []) kvs)
      | _ \<Rightarrow> [])"

text \<open>Every setting of the file outside the defaults list.\<close>

definition settings :: "yaml \<Rightarrow> (string list \<times> string) list" where
  "settings y =
     (case y of
        YMap kvs \<Rightarrow>
          concat (map (\<lambda>(k, v). section_settings k v) (filter (\<lambda>kv. fst kv \<noteq> ''defaults'') kvs))
      | _ \<Rightarrow> [])"

definition save_filetypes :: "yaml \<Rightarrow> string list" where
  "save_filetypes y =
     (case field y ''save_filetypes'' of Some (YScalar s) \<Rightarrow> split_on CHR '','' s | _ \<Rightarrow> [])"

text \<open>One string inside another; one string at the end of another.\<close>

fun contains :: "string \<Rightarrow> string \<Rightarrow> bool" where
  "contains p [] = (p = [])"
| "contains p (c # cs) = (starts_with p (c # cs) \<or> contains p cs)"

definition ends_with :: "string \<Rightarrow> string \<Rightarrow> bool" where
  "ends_with p s = starts_with (rev p) (rev s)"

text \<open>
  The settings that give a frequency, by their keys. The notebook calls the directory of
  checkpoints \<open>network_dir\<close>: a key is about checkpoints when it speaks of the network or
  of checkpoints.
\<close>

definition frequency_settings :: "yaml \<Rightarrow> string list list" where
  "frequency_settings y =
     map fst (filter (\<lambda>kv. list_ex (ends_with ''_freq'') (fst kv)) (settings y))"

definition about_checkpoints :: "string \<Rightarrow> bool" where
  "about_checkpoints k = (contains ''network'' k \<or> contains ''checkpoint'' k)"

definition checkpoint_settings :: "yaml \<Rightarrow> string list list" where
  "checkpoint_settings y =
     map fst (filter (\<lambda>kv. list_ex about_checkpoints (fst kv)) (settings y))"



section \<open>The notebook\<close>

subsection \<open>Python values and symbolic expressions\<close>

text \<open>
  The expressions of the symbolic library, as far as the notebook builds them: a symbol, a
  number, an undefined function applied to arguments, a derivative of a given order, a
  difference.
\<close>

datatype sym =
    Symbol string
  | Float real
  | Integer int
  | Apply string "sym list"
  | Derivative sym sym nat
  | Sub sym sym

datatype pyval =
    PStr string
  | PFloat real
  | PInt int
  | PBool bool
  | PNone
  | PExpr sym
  | PList "pyval list"

datatype pytype = T_str | T_float | T_int | T_bool | T_NoneType | T_Expr | T_list

text \<open>
  \<open>type(f)\<close>: the class of the value itself. \<open>bool\<close> is a subclass of \<open>int\<close>, and
  still \<open>type(True)\<close> is \<open>bool\<close>, not \<open>int\<close>.
\<close>

fun type_of :: "pyval \<Rightarrow> pytype" where
  "type_of (PStr s) = T_str"
| "type_of (PFloat r) = T_float"
| "type_of (PInt i) = T_int"
| "type_of (PBool b) = T_bool"
| "type_of PNone = T_NoneType"
| "type_of (PExpr e) = T_Expr"
| "type_of (PList vs) = T_list"

datatype py_error = TypeError | NameError | OtherError string

text \<open>\<open>Function(name)(*args)\<close> and \<open>Number(v)\<close>, on the values the constructor gives them.\<close>

fun Function_apply :: "pyval \<Rightarrow> sym list \<Rightarrow> py_error + sym" where
  "Function_apply (PStr s) args = Inr (Apply s args)"
| "Function_apply v args = Inl TypeError"

fun Number :: "pyval \<Rightarrow> py_error + sym" where
  "Number (PFloat r) = Inr (Float r)"
| "Number (PInt i) = Inr (Integer i)"
| "Number v = Inl TypeError"

text \<open>
  \<open>a - b\<close> as the constructor uses it, with a derivative of the unknown function on the
  left. The library refuses a right operand that is no expression and that it does not
  turn into one: a \<open>bool\<close>, \<open>None\<close>, a list, a \<open>str\<close> raise \<open>TypeError\<close>. A Python number
  is turned into the library's number. With a number other than zero or an applied
  function on the right, the difference stays as written. Any other difference of two
  expressions is brought into the library's own form, which may be another term (a zero
  drops out, equal terms cancel); that rewriting is not the notebook's and is a parameter
  here. A difference of two expressions never raises.
\<close>

fun plain_difference :: "sym \<Rightarrow> sym \<Rightarrow> bool" where
  "plain_difference (Derivative (Apply g args) v (Suc n)) (Float r) = (r \<noteq> 0)"
| "plain_difference (Derivative (Apply g args) v (Suc n)) (Integer i) = (i \<noteq> 0)"
| "plain_difference (Derivative (Apply g args) v (Suc n)) (Apply h args') = True"
| "plain_difference a e = False"

definition difference :: "(sym \<Rightarrow> sym \<Rightarrow> sym) \<Rightarrow> sym \<Rightarrow> sym \<Rightarrow> sym" where
  "difference rewrite a e = (if plain_difference a e then Sub a e else rewrite a e)"

fun sub_expr :: "(sym \<Rightarrow> sym \<Rightarrow> sym) \<Rightarrow> sym \<Rightarrow> pyval \<Rightarrow> py_error + sym" where
  "sub_expr rewrite a (PExpr e) = Inr (difference rewrite a e)"
| "sub_expr rewrite a (PFloat r) = Inr (difference rewrite a (Float r))"
| "sub_expr rewrite a (PInt i) = Inr (difference rewrite a (Integer i))"
| "sub_expr rewrite a (PStr s) = Inl TypeError"
| "sub_expr rewrite a (PBool b) = Inl TypeError"
| "sub_expr rewrite a PNone = Inl TypeError"
| "sub_expr rewrite a (PList vs) = Inl TypeError"

text \<open>A rewriting that leaves every difference as written, for concrete runs.\<close>

definition no_rewrite :: "sym \<Rightarrow> sym \<Rightarrow> sym" where
  "no_rewrite a e = Sub a e"

subsection \<open>CustomPDE\<close>

text \<open>
  \<open>input_variables = {"x": x}\<close>; \<open>*input_variables\<close> unpacks the keys of the dictionary,
  and the library reads the key \<open>"x"\<close> as the symbol of that name.
\<close>

definition input_variables :: "(string \<times> sym) list" where
  "input_variables = [(''x'', Symbol ''x'')]"

definition star_input_variables :: "sym list" where
  "star_input_variables = map (\<lambda>kv. Symbol (fst kv)) input_variables"

text \<open>The source term: the \<open>if\<close>/\<open>elif\<close> of the constructor, which has no \<open>else\<close>.\<close>

definition source_term :: "pyval \<Rightarrow> py_error + pyval" where
  "source_term f =
     (if type_of f = T_str then map_sum id PExpr (Function_apply f star_input_variables)
      else if type_of f \<in> set [T_float, T_int] then map_sum id PExpr (Number f)
      else Inr f)"

text \<open>The constructor: the equations of the object, or the error raised on the way.\<close>

definition CustomPDE :: "(sym \<Rightarrow> sym \<Rightarrow> sym) \<Rightarrow> pyval \<Rightarrow> py_error + (string \<times> sym) list" where
  "CustomPDE rewrite f =
     (let x = Symbol ''x'';
          u = Apply ''u'' star_input_variables
      in case source_term f of
           Inl err \<Rightarrow> Inl err
         | Inr f' \<Rightarrow>
             (case sub_expr rewrite (Derivative u x 2) f' of
                Inl err \<Rightarrow> Inl err
              | Inr eq \<Rightarrow> Inr [(''custom_pde'', eq)]))"

text \<open>
  The value of an expression at a point, for a candidate \<open>u\<close> given with its derivatives:
  \<open>d n\<close> is the \<open>n\<close>-th derivative. An expression outside the candidate's reach has no
  value.
\<close>

fun eval_sym :: "(nat \<Rightarrow> real \<Rightarrow> real) \<Rightarrow> real \<Rightarrow> sym \<Rightarrow> real option" where
  "eval_sym d x (Symbol s) = (if s = ''x'' then Some x else None)"
| "eval_sym d x (Float r) = Some r"
| "eval_sym d x (Integer i) = Some (of_int i)"
| "eval_sym d x (Apply g args) =
     (if g = ''u'' \<and> args = [Symbol ''x''] then Some (d 0 x) else None)"
| "eval_sym d x (Derivative e v n) =
     (if e = Apply ''u'' [Symbol ''x''] \<and> v = Symbol ''x'' then Some (d n x) else None)"
| "eval_sym d x (Sub a b) =
     (case (eval_sym d x a, eval_sym d x b) of
        (Some p, Some q) \<Rightarrow> Some (p - q)
      | _ \<Rightarrow> None)"

subsection \<open>The problem of the notebook\<close>

record Line1D =
  point_1 :: real
  point_2 :: real

definition geo :: Line1D where
  "geo = \<lparr>point_1 = 0, point_2 = 1\<rparr>"

text \<open>\<open>eq = CustomPDE(f=1.0)\<close>; the boundary constraint asks \<open>u = 0\<close>.\<close>

definition eq_f :: pyval where
  "eq_f = PFloat 1.0"

definition bc_outvar :: "(string \<times> real) list" where
  "bc_outvar = [(''u'', 0)]"

text \<open>
  The reference curve of the last cell, in the two ways the cell writes it:
  \<open>0.5*(np.sort(x)*(np.sort(x)-1))\<close> for the line and \<open>0.5*(x_np-1)*x_np\<close> for the
  boundary points. The arrays hold floating-point numbers; the curve is taken over the reals.
\<close>

definition analytic :: "real \<Rightarrow> real" where
  "analytic x = 0.5 * (x * (x - 1))"

definition u_np :: "real \<Rightarrow> real" where
  "u_np x = 0.5 * (x - 1) * x"

text \<open>The curve with its derivatives, as a candidate for \<open>u\<close>.\<close>

fun analytic_derivs :: "nat \<Rightarrow> real \<Rightarrow> real" where
  "analytic_derivs 0 x = analytic x"
| "analytic_derivs (Suc 0) x = x - 1 / 2"
| "analytic_derivs (Suc (Suc 0)) x = 1"
| "analytic_derivs n x = 0"

subsection \<open>The statements of the code cells\<close>

text \<open>
  A statement, with what the analyses below need of it. \<open>Simple\<close> is an assignment or an
  expression statement: the targets it binds (none for an expression statement), the
  functions and methods it calls as the source writes them (the outermost call first; a
  method called on an intermediate result starts with a dot), the names it reads, and its
  string literals. The compound statements of Python are there too, whether the notebook
  uses them or not.
\<close>

datatype stmt =
    Import "string list"
  | Simple "string list" "string list" "string list" "string list"
  | If "string list" "stmt list" "stmt list"
  | Loop "string list" "stmt list"
  | Try "stmt list" "stmt list"
  | FunctionDef string "string list" "stmt list"
  | ClassDef string "string list" "stmt list"

definition cell_config :: "stmt list" where
  "cell_config =
     [Import [''modulus''],
      Import [''to_yaml''],
      Import [''compose''],
      Import [''ModulusConfig''],
      Simple [''cfg''] [''compose''] [''compose''] [''./'', ''config''],
      Simple [''cfg.network_dir''] [] [''cfg''] [''outputs''],
      Simple [] [''print'', ''to_yaml''] [''print'', ''to_yaml'', ''cfg''] []]"

definition cell_geometry :: "stmt list" where
  "cell_geometry =
     [Import [''Symbol''],
      Import [''Line1D''],
      Simple [''x''] [''Symbol''] [''Symbol''] [''x''],
      Simple [''geo''] [''Line1D''] [''Line1D''] []]"

definition cell_samples :: "stmt list" where
  "cell_samples =
     [Simple [''samples''] [''geo.sample_boundary''] [''geo''] [],
      Simple [] [''print''] [''print'', ''samples''] [''Boundary Samples''],
      Simple [''samples''] [''geo.sample_interior''] [''geo''] [],
      Simple [] [''print''] [''print'', ''samples''] [''Interior Samples'']]"

definition cell_pde :: "stmt list" where
  "cell_pde =
     [Import [''Symbol'', ''Number'', ''Function''],
      Import [''PDE''],
      ClassDef ''CustomPDE'' [''PDE'']
       [FunctionDef ''__init__'' [''self'', ''f'']
         [Simple [''x''] [''Symbol''] [''Symbol''] [''x''],
          Simple [''input_variables''] [] [''x''] [''x''],
          Simple [''u''] [''Function''] [''Function'', ''input_variables''] [''u''],
          If [''type'', ''f'', ''str'']
           [Simple [''f''] [''Function''] [''Function'', ''f'', ''input_variables''] []]
           [If [''type'', ''f'', ''float'', ''int'']
             [Simple [''f''] [''Number''] [''Number'', ''f''] []]
             []],
          Simple [''self.equations''] [] [''self''] [],
          Simple [''self.equations[]''] [''u.diff''] [''self'', ''u'', ''x'', ''f''] [''custom_pde'']]]]"

definition cell_nodes :: "stmt list" where
  "cell_nodes =
     [Import [''FullyConnectedArch''],
      Import [''Key''],
      Simple [''eq''] [''CustomPDE''] [''CustomPDE''] [],
      Simple [''u_net''] [''FullyConnectedArch'', ''Key'', ''Key'']
        [''FullyConnectedArch'', ''Key''] [''x'', ''u''],
      Simple [''nodes''] [''eq.make_nodes'', ''u_net.make_node''] [''eq'', ''u_net'']
        [''u_network'']]"

definition cell_domain :: "stmt list" where
  "cell_domain =
     [Import [''Domain''],
      Simple [''domain''] [''Domain''] [''Domain''] []]"

definition cell_constraints :: "stmt list" where
  "cell_constraints =
     [Import [''PointwiseBoundaryConstraint'', ''PointwiseInteriorConstraint''],
      Simple [''bc''] [''PointwiseBoundaryConstraint'']
        [''PointwiseBoundaryConstraint'', ''nodes'', ''geo''] [''u''],
      Simple [] [''domain.add_constraint''] [''domain'', ''bc''] [''bc''],
      Simple [''interior''] [''PointwiseInteriorConstraint'']
        [''PointwiseInteriorConstraint'', ''nodes'', ''geo'', ''x''] [''custom_pde''],
      Simple [] [''domain.add_constraint''] [''domain'', ''interior''] [''interior'']]"

definition cell_inferencer :: "stmt list" where
  "cell_inferencer =
     [Import [''np''],
      Import [''PointwiseInferencer''],
      Simple [''inference''] [''PointwiseInferencer'', ''np.linspace'', ''.reshape'']
        [''PointwiseInferencer'', ''nodes'', ''np''] [''x'', ''u''],
      Simple [] [''domain.add_inferencer''] [''domain'', ''inference''] [''inf_data'']]"

definition cell_logging :: "stmt list" where
  "cell_logging =
     [Import [''logging''],
      Simple [] [''.addHandler'', ''logging.getLogger'', ''logging.StreamHandler'']
        [''logging''] []]"

definition cell_solver :: "stmt list" where
  "cell_solver =
     [Import [''os''],
      Import [''Solver''],
      Simple [''slv''] [''Solver''] [''Solver'', ''cfg'', ''domain''] [],
      Simple [] [''slv.solve''] [''slv''] []]"

definition cell_plot :: "stmt list" where
  "cell_plot =
     [Import [''plt''],
      Import [''np''],
      Simple [''data''] [''np.load''] [''np''] [''./outputs/inferencers/inf_data.npz''],
      Simple [''data''] [''np.atleast_1d''] [''np'', ''data''] [],
      Simple [] [''plt.figure''] [''plt''] [],
      Simple [''x''] [''.flatten''] [''data''] [''x''],
      Simple [''pred_u''] [''.flatten''] [''data''] [''u''],
      Simple [] [''plt.plot'', ''np.sort'', ''np.argsort'']
        [''plt'', ''np'', ''x'', ''pred_u''] [''Neural Solver''],
      Simple [] [''plt.plot'', ''np.sort'', ''np.sort'', ''np.sort'']
        [''plt'', ''np'', ''x''] [''(1/2)(x-1)x''],
      Simple [''x_np''] [''np.array''] [''np''] [],
      Simple [''u_np''] [] [''x_np''] [],
      Simple [] [''plt.scatter''] [''plt'', ''x_np'', ''u_np''] [''BC''],
      Simple [] [''plt.legend''] [''plt''] [],
      Simple [] [''plt.show''] [''plt''] []]"

text \<open>The code cells in the order of the notebook, and the statements it runs top to bottom.\<close>

definition Modulus_Anatomy :: "stmt list list" where
  "Modulus_Anatomy =
     [cell_config, cell_geometry, cell_samples, cell_pde, cell_nodes, cell_domain,
      cell_constraints, cell_inferencer, cell_logging, cell_solver, cell_plot]"

definition notebook :: "stmt list" where
  "notebook = concat Modulus_Anatomy"

subsection \<open>Control flow\<close>

text \<open>A statement that branches, repeats or catches, at the level it stands.\<close>

fun is_compound :: "stmt \<Rightarrow> bool" where
  "is_compound (If t a b) = True"
| "is_compound (Loop t b) = True"
| "is_compound (Try b h) = True"
| "is_compound s = False"




subsection \<open>The steps of the workflow\<close>

datatype step = LoadConfig | BuildGeometry | BuildNodes | AssembleDomain | RunSolver | LoadResults | Plot

fun step_rank :: "step \<Rightarrow> nat" where
  "step_rank LoadConfig = 0"
| "step_rank BuildGeometry = 1"
| "step_rank BuildNodes = 2"
| "step_rank AssembleDomain = 3"
| "step_rank RunSolver = 4"
| "step_rank LoadResults = 5"
| "step_rank Plot = 6"

text \<open>The step a call belongs to, by the function or method called.\<close>

definition step_of_call :: "string \<Rightarrow> step option" where
  "step_of_call c =
     (if c = ''compose'' then Some LoadConfig
      else if c = ''Line1D'' then Some BuildGeometry
      else if c \<in> set [''CustomPDE'', ''FullyConnectedArch'', ''eq.make_nodes''] then Some BuildNodes
      else if c \<in> set [''Domain'', ''PointwiseBoundaryConstraint'', ''PointwiseInteriorConstraint'',
                        ''domain.add_constraint'', ''PointwiseInferencer'', ''domain.add_inferencer'']
        then Some AssembleDomain
      else if c \<in> set [''Solver'', ''slv.solve''] then Some RunSolver
      else if c = ''np.load'' then Some LoadResults
      else if starts_with ''plt.'' c then Some Plot
      else None)"

text \<open>
  The step of a statement: that of its outermost call; the class that defines the
  equation belongs to the building of the nodes.
\<close>

fun step_of :: "stmt \<Rightarrow> step option" where
  "step_of (Simple ts (c # cs) rs ls) = step_of_call c"
| "step_of (ClassDef n bs b) = (if ''PDE'' \<in> set bs then Some BuildNodes else None)"
| "step_of s = None"

definition steps :: "stmt list \<Rightarrow> step list" where
  "steps ss = concat (map (\<lambda>s. case step_of s of None \<Rightarrow> [] | Some k \<Rightarrow> [k]) ss)"

subsection \<open>Data flow\<close>

text \<open>The variable a target or a dotted name starts with.\<close>

definition root :: "string \<Rightarrow> string" where
  "root n = takeWhile (\<lambda>c. c \<noteq> CHR ''.'' \<and> c \<noteq> CHR ''['') n"

fun binds :: "stmt \<Rightarrow> string list" where
  "binds (Import ns) = ns"
| "binds (Simple ts cs rs ls) = map root ts"
| "binds (FunctionDef n ps b) = [n]"
| "binds (ClassDef n bs b) = [n]"
| "binds s = []"

fun reads :: "stmt \<Rightarrow> string list" where
  "reads (Simple ts cs rs ls) = rs"
| "reads (If t a b) = t"
| "reads (Loop t b) = t"
| "reads (ClassDef n bs b) = bs"
| "reads s = []"

text \<open>Every name a statement reads is bound by a statement before it (or built in).\<close>

fun flows_forward :: "string list \<Rightarrow> stmt list \<Rightarrow> bool" where
  "flows_forward env [] = True"
| "flows_forward env (s # ss) =
     (list_all (\<lambda>n. n \<in> set env) (reads s) \<and> flows_forward (binds s @ env) ss)"

definition builtins :: "string list" where
  "builtins = [''print'']"

subsection \<open>The result files and their use\<close>













subsection \<open>Reading the archive\<close>






subsection \<open>The exit status of a run\<close>


section \<open>Facts about the script's text\<close>

lemma directives_submit:
  "sbatch_directives submit =
     [(''job-name'', ''modulus-test''), (''nodes'', ''1''), (''ntasks'', ''8''),
      (''mem-per-cpu'', ''7000mb''), (''partition'', ''gpu''), (''gpus'', ''a100:8''),
      (''time'', ''12:30:00'')]"
  by code_simp

lemma commands_submit:
  "commands submit =
     [[''module'', ''purge''],
      [''module'', ''load'', ''ufrc'', ''modulus''],
      [''srun'', ''--mpi=none'', ''-n'', ''8'', ''python'', ''lennard_jones_system.py'']]"
  by code_simp

lemma launch_submit:
  "the_launch submit =
     Some \<lparr>opts = [(''--mpi'', ''none''), (''-n'', ''8'')],
           cmd = [''python'', ''lennard_jones_system.py'']\<rparr>"
  by code_simp

lemma handlers_submit: "handlers submit = []"
  by code_simp

lemma declared_tasks_submit: "declared_tasks submit = Some 8"
  by code_simp

lemma declared_gpus_submit: "declared_gpus submit = Some (''a100'', 8)"
  by code_simp

lemma exit_status_submit:
  "exit_status exec env submit =
     snd (exec (env_at_last exec env submit)
            [''srun'', ''--mpi=none'', ''-n'', ''8'', ''python'', ''lennard_jones_system.py''])"
  by (simp add: exit_status_def run_script_def env_at_last_def commands_submit)

section \<open>Facts about running statements\<close>






section \<open>Facts about the reference curve\<close>

lemma analytic_deriv: "(analytic has_real_derivative x - 1 / 2) (at x)"
  unfolding analytic_def [abs_def]
  by (auto intro!: derivative_eq_intros simp: field_simps)

lemma analytic_deriv2: "((\<lambda>y. y - 1 / 2) has_real_derivative 1) (at x)"
proof -
  have "((\<lambda>y::real. y - 1 / 2) has_real_derivative 1 - 0) (at x)"
    by (intro derivative_intros)
  then show ?thesis by simp
qed

lemma eq_of_notebook:
  "CustomPDE rewrite eq_f =
     Inr [(''custom_pde'',
           Sub (Derivative (Apply ''u'' [Symbol ''x'']) (Symbol ''x'') 2) (Float 1))]"
  by (simp add: CustomPDE_def eq_f_def source_term_def difference_def
      star_input_variables_def input_variables_def numeral_2_eq_2)

section \<open>The batch submission script: claims\<close>

text \<open>
  C1. The scheduler directives of the script are exactly seven requests, in this order: a
  job name, a node count (1), a task count (8), memory (7000 MB per CPU, which is the
  memory of a task since each task has one CPU), a partition (\<open>gpu\<close>), accelerators by
  type and count (8 of type \<open>a100\<close>) and a time limit (12:30:00). Every \<open>#SBATCH\<close> line
  stands before the first command, so each takes effect. The job asks for more than one
  task and more than one GPU.
\<close>

theorem submit_resource_requests:
  "requests submit =
     [Some (JobName ''modulus-test''), Some (Nodes 1), Some (NTasks 8),
      Some (MemPerCpu 7000), Some (Partition ''gpu''), Some (Gpus ''a100'' 8),
      Some (TimeLimit 12 30 0)]
   \<and> filter (starts_with ''#SBATCH'') submit
       = filter (starts_with ''#SBATCH --'') (script_header submit)
   \<and> cpus_per_task submit = Some 1
   \<and> mem_per_task submit = Some 7000
   \<and> map_option (\<lambda>n. 1 < n) (declared_tasks submit) = Some True
   \<and> map_option (\<lambda>g. 1 < snd g) (declared_gpus submit) = Some True"
proof -
  have a: "requests submit =
     [Some (JobName ''modulus-test''), Some (Nodes 1), Some (NTasks 8),
      Some (MemPerCpu 7000), Some (Partition ''gpu''), Some (Gpus ''a100'' 8),
      Some (TimeLimit 12 30 0)]"
    by code_simp
  have b: "filter (starts_with ''#SBATCH'') submit
       = filter (starts_with ''#SBATCH --'') (script_header submit)"
    by code_simp
  have c: "cpus_per_task submit = Some 1"
    by code_simp
  have d: "mem_per_task submit = Some 7000"
    by code_simp
  have e: "map_option (\<lambda>n. 1 < n) (declared_tasks submit) = Some True"
    by (simp add: declared_tasks_submit)
  have f: "map_option (\<lambda>g. 1 < snd g) (declared_gpus submit) = Some True"
    by (simp add: declared_gpus_submit)
  from a b c d e f show ?thesis by blast
qed

text \<open>
  C2. The script has exactly one launch, the \<open>srun\<close> of its last line (the \<open>srun\<close> line
  before it is a comment), and nothing that reacts to a failure: no branch, loop, trap,
  wait or control operator. The launch is the last command, so whatever the commands do,
  the exit status of the script is the exit status of the launch: the job fails exactly
  when the launch fails.
\<close>

theorem submit_single_launch_no_recovery:
  "launches submit =
     [[''srun'', ''--mpi=none'', ''-n'', ''8'', ''python'', ''lennard_jones_system.py'']]
   \<and> length (launches submit) = 1
   \<and> last (commands submit) = hd (launches submit)
   \<and> handlers submit = []
   \<and> exit_status exec env submit
       = snd (exec (env_at_last exec env submit) (hd (launches submit)))
   \<and> job_failed exec env submit
       = (snd (exec (env_at_last exec env submit) (hd (launches submit))) \<noteq> 0)"
proof -
  have l: "launches submit =
     [[''srun'', ''--mpi=none'', ''-n'', ''8'', ''python'', ''lennard_jones_system.py'']]"
    by (simp add: launches_def commands_submit)
  have last: "last (commands submit) = hd (launches submit)"
    by (simp add: l commands_submit)
  have st: "exit_status exec env submit
       = snd (exec (env_at_last exec env submit) (hd (launches submit)))"
    by (simp add: l exit_status_submit)
  have jf: "job_failed exec env submit
       = (snd (exec (env_at_last exec env submit) (hd (launches submit))) \<noteq> 0)"
    by (simp add: job_failed_def st)
  from l last st jf handlers_submit show ?thesis by simp
qed

text \<open>
  C3, as the claim states it, fails: the launch command has no process-binding option.
\<close>

theorem launch_binding_mode_counterexample:
  "map_option binding_mode (the_launch submit) = Some None"
  by (simp add: launch_submit binding_mode_def binding_options_def)

text \<open>
  C3, amended. The launch command specifies three things: the number of parallel
  processes (\<open>-n 8\<close>), the MPI plugin (\<open>--mpi=none\<close>), and the command to run, which is
  the interpreter \<open>python\<close> with the path of the target script. It has no other option.
\<close>

theorem launch_command_parts:
  "map_option opts (the_launch submit) = Some [(''--mpi'', ''none''), (''-n'', ''8'')]
   \<and> Option.bind (the_launch submit) launch_tasks = Some 8
   \<and> Option.bind (the_launch submit) mpi_type = Some ''none''
   \<and> map_option cmd (the_launch submit) = Some [''python'', ''lennard_jones_system.py'']
   \<and> Option.bind (the_launch submit) target_script = Some ''lennard_jones_system.py''
   \<and> Option.bind (the_launch submit) binding_mode = None"
proof -
  have n: "nat_of_string ''8'' = Some 8"
    by code_simp
  show ?thesis
    by (simp add: launch_submit launch_tasks_def mpi_type_def target_script_def
        binding_mode_def binding_options_def n)
qed

text \<open>
  C8. The three figures of parallelism agree: the process count of the launch, the task
  count declared to the scheduler and the number of GPUs requested are all 8.
\<close>

theorem submit_parallelism_consistent:
  "Option.bind (the_launch submit) launch_tasks = declared_tasks submit
   \<and> declared_tasks submit = map_option snd (declared_gpus submit)
   \<and> declared_tasks submit = Some 8"
proof -
  have n: "nat_of_string ''8'' = Some 8"
    by code_simp
  have "Option.bind (the_launch submit) launch_tasks = Some 8"
    by (simp add: launch_submit launch_tasks_def n)
  then show ?thesis
    by (simp add: declared_tasks_submit declared_gpus_submit)
qed

section \<open>The configuration file: claims\<close>

text \<open>
  C5, as the claim states it, fails twice. The defaults list has an entry that names no
  config, the keyword \<open>_self_\<close>. And no setting of the file is about checkpoints: the file
  gives neither a format nor a frequency for them.
\<close>

theorem config_surface_counterexample:
  "\<not> list_all names_config (defaults_list config_yaml)
   \<and> last (defaults_list config_yaml) = Some SelfEntry
   \<and> checkpoint_settings config_yaml = []"
proof -
  have a: "defaults_list config_yaml =
       [Some (ConfigName ''modulus_default''),
        Some (GroupChoice ''scheduler'' ''tf_exponential_lr''),
        Some (GroupChoice ''optimizer'' ''adam''),
        Some (GroupChoice ''loss'' ''sum''),
        Some SelfEntry]"
    by (simp add: defaults_list_def config_yaml_def field_def default_entry_of_def)
  have b: "checkpoint_settings config_yaml = []"
    by code_simp
  show ?thesis unfolding a b by simp
qed

text \<open>
  C5, amended. The file has four top-level keys. Its defaults list names the base config
  \<open>modulus_default\<close>, the scheduler \<open>tf_exponential_lr\<close>, the optimizer \<open>adam\<close> and the
  loss aggregation \<open>sum\<close>, and ends with the keyword \<open>_self_\<close>. Its settings are the
  scheduler's decay rate and decay interval, the file types in which results are saved,
  the frequencies of recording results and of recording constraints, and the maximum
  number of steps, and no other; none is about checkpoints.
\<close>

theorem config_surface:
  "top_keys config_yaml = [''defaults'', ''scheduler'', ''save_filetypes'', ''training'']
   \<and> defaults_list config_yaml =
       [Some (ConfigName ''modulus_default''),
        Some (GroupChoice ''scheduler'' ''tf_exponential_lr''),
        Some (GroupChoice ''optimizer'' ''adam''),
        Some (GroupChoice ''loss'' ''sum''),
        Some SelfEntry]
   \<and> settings config_yaml =
       [([''scheduler'', ''decay_rate''], ''0.95''),
        ([''scheduler'', ''decay_steps''], ''200''),
        ([''save_filetypes''], ''vtk,npz''),
        ([''training'', ''rec_results_freq''], ''1000''),
        ([''training'', ''rec_constraint_freq''], ''1000''),
        ([''training'', ''max_steps''], ''5000'')]
   \<and> save_filetypes config_yaml = [''vtk'', ''npz'']
   \<and> frequency_settings config_yaml =
       [[''training'', ''rec_results_freq''], [''training'', ''rec_constraint_freq'']]
   \<and> checkpoint_settings config_yaml = []"
proof -
  have a: "top_keys config_yaml = [''defaults'', ''scheduler'', ''save_filetypes'', ''training'']"
    by (simp add: top_keys_def config_yaml_def)
  have b: "defaults_list config_yaml =
       [Some (ConfigName ''modulus_default''),
        Some (GroupChoice ''scheduler'' ''tf_exponential_lr''),
        Some (GroupChoice ''optimizer'' ''adam''),
        Some (GroupChoice ''loss'' ''sum''),
        Some SelfEntry]"
    by (simp add: defaults_list_def config_yaml_def field_def default_entry_of_def)
  have c: "settings config_yaml =
       [([''scheduler'', ''decay_rate''], ''0.95''),
        ([''scheduler'', ''decay_steps''], ''200''),
        ([''save_filetypes''], ''vtk,npz''),
        ([''training'', ''rec_results_freq''], ''1000''),
        ([''training'', ''rec_constraint_freq''], ''1000''),
        ([''training'', ''max_steps''], ''5000'')]"
    by (simp add: settings_def section_settings_def config_yaml_def)
  have d: "save_filetypes config_yaml = [''vtk'', ''npz'']"
    by code_simp
  have e: "frequency_settings config_yaml =
       [[''training'', ''rec_results_freq''], [''training'', ''rec_constraint_freq'']]"
    by code_simp
  have f: "checkpoint_settings config_yaml = []"
    by code_simp
  from a b c d e f show ?thesis by blast
qed

section \<open>The notebook: claims\<close>

text \<open>
  C4. The top level of the notebook has no branch, loop or \<open>try\<close>: its statements run
  once each, top to bottom. The steps of the workflow stand in blocks in this order: load
  the configuration, build the geometry, build the equation and network nodes, assemble
  the domain, run the solver, load the result arrays, plot. So no statement of a step
  stands before a statement of a step listed earlier. Every name a statement reads is
  bound by an earlier statement.
\<close>

theorem notebook_steps_in_order:
  "filter is_compound notebook = []
   \<and> remdups_adj (steps notebook) =
       [LoadConfig, BuildGeometry, BuildNodes, AssembleDomain, RunSolver, LoadResults, Plot]
   \<and> sorted (map step_rank (steps notebook))
   \<and> flows_forward builtins notebook"
proof -
  have a: "filter is_compound notebook = []"
    by code_simp
  have s: "steps notebook =
      [LoadConfig, BuildGeometry, BuildNodes, BuildNodes, BuildNodes, BuildNodes,
       AssembleDomain, AssembleDomain, AssembleDomain, AssembleDomain, AssembleDomain,
       AssembleDomain, AssembleDomain, RunSolver, RunSolver, LoadResults,
       Plot, Plot, Plot, Plot, Plot, Plot]"
    by code_simp
  have b: "remdups_adj (steps notebook) =
       [LoadConfig, BuildGeometry, BuildNodes, AssembleDomain, RunSolver, LoadResults, Plot]"
    unfolding s by simp
  have c: "sorted (map step_rank (steps notebook))"
    unfolding s by simp
  have d: "flows_forward builtins notebook"
    by code_simp
  from a b c d show ?thesis by blast
qed






text \<open>
  C9. The reference curve \<open>u(x) = 0.5 x (x - 1)\<close> solves the problem of the notebook.
  With source term \<open>1.0\<close> the equation of \<open>CustomPDE\<close> is \<open>u'' - 1\<close>. The first derivative
  of the curve is \<open>x - 1/2\<close> and its second derivative is \<open>1\<close>, at every \<open>x\<close>, so the
  equation is \<open>0\<close> on the curve everywhere. At both ends of the line from \<open>0\<close> to \<open>1\<close> the
  curve has the value the boundary constraint asks of \<open>u\<close>, which is \<open>0\<close>. The two ways the
  cell writes the curve are the same function.
\<close>

theorem analytic_solves_problem:
  "(\<forall>x. (analytic has_real_derivative analytic_derivs 1 x) (at x))
   \<and> (\<forall>x. (analytic_derivs 1 has_real_derivative analytic_derivs 2 x) (at x))
   \<and> source_term eq_f = Inr (PExpr (Float 1))
   \<and> (\<forall>x. Inr (PExpr (Float (analytic_derivs 2 x))) = source_term eq_f)
   \<and> (\<forall>x. map_sum id (map (\<lambda>e. (fst e, eval_sym analytic_derivs x (snd e))))
             (CustomPDE rewrite eq_f) = Inr [(''custom_pde'', Some 0)])
   \<and> map_of bc_outvar ''u'' = Some (analytic (point_1 geo))
   \<and> map_of bc_outvar ''u'' = Some (analytic (point_2 geo))
   \<and> point_1 geo = 0 \<and> point_2 geo = 1
   \<and> u_np = analytic"
proof -
  have d1: "analytic_derivs 1 = (\<lambda>y. y - 1 / 2)"
    by (rule ext) simp
  have d2: "analytic_derivs 2 = (\<lambda>y. 1)"
    by (rule ext) (simp add: numeral_2_eq_2)
  have a: "\<forall>x. (analytic has_real_derivative analytic_derivs 1 x) (at x)"
    unfolding d1 using analytic_deriv by blast
  have b: "\<forall>x. (analytic_derivs 1 has_real_derivative analytic_derivs 2 x) (at x)"
    unfolding d1 d2 using analytic_deriv2 by blast
  have c: "source_term eq_f = Inr (PExpr (Float 1))"
    by (simp add: source_term_def eq_f_def)
  have c': "\<forall>x. Inr (PExpr (Float (analytic_derivs 2 x))) = source_term eq_f"
    unfolding c d2 by simp
  have e: "\<forall>x. map_sum id (map (\<lambda>e. (fst e, eval_sym analytic_derivs x (snd e))))
             (CustomPDE rewrite eq_f) = Inr [(''custom_pde'', Some 0)]"
    unfolding eq_of_notebook d2 by (simp add: numeral_2_eq_2)
  have f: "map_of bc_outvar ''u'' = Some (analytic (point_1 geo))"
    by (simp add: bc_outvar_def analytic_def geo_def)
  have g: "map_of bc_outvar ''u'' = Some (analytic (point_2 geo))"
    by (simp add: bc_outvar_def analytic_def geo_def)
  have h: "point_1 geo = 0 \<and> point_2 geo = 1"
    by (simp add: geo_def)
  have i: "u_np = analytic"
    by (rule ext) (simp add: u_np_def analytic_def algebra_simps)
  from a b c c' e f g h i show ?thesis by blast
qed

text \<open>
  C10, as the claim states it, fails: a \<open>bool\<close> is left as it is by the \<open>if\<close>/\<open>elif\<close>, but
  then the subtraction \<open>u'' - f\<close> of the constructor raises \<open>TypeError\<close>.
\<close>

theorem CustomPDE_bool_counterexample:
  "type_of (PBool True) = T_bool
   \<and> source_term (PBool True) = Inr (PBool True)
   \<and> CustomPDE no_rewrite (PBool True) = Inl TypeError"
  by (simp add: CustomPDE_def source_term_def)

text \<open>
  C10, amended. The constructor of \<open>CustomPDE\<close> settles its source term by the type of
  \<open>f\<close>. A \<open>str\<close> becomes the function of that name applied to \<open>x\<close>; a \<open>float\<close> or an \<open>int\<close>
  becomes the number. A value of any other type is left as it is and goes unchanged into
  the subtraction \<open>u'' - f\<close>; the constructor checks nothing itself. For an expression the
  equation is built and no error is raised. For a \<open>bool\<close>, as for \<open>None\<close> and a list, the
  subtraction raises \<open>TypeError\<close> and the constructor fails with it.
\<close>

theorem CustomPDE_source_term_and_errors:
  "source_term (PStr s) = Inr (PExpr (Apply s [Symbol ''x'']))
   \<and> source_term (PFloat r) = Inr (PExpr (Float r))
   \<and> source_term (PInt i) = Inr (PExpr (Integer i))
   \<and> (type_of f \<notin> {T_str, T_float, T_int} \<longrightarrow> source_term f = Inr f)
   \<and> CustomPDE rewrite (PStr s) =
       Inr [(''custom_pde'',
             Sub (Derivative (Apply ''u'' [Symbol ''x'']) (Symbol ''x'') 2)
               (Apply s [Symbol ''x'']))]
   \<and> CustomPDE rewrite (PFloat r) =
       Inr [(''custom_pde'',
             difference rewrite (Derivative (Apply ''u'' [Symbol ''x'']) (Symbol ''x'') 2)
               (Float r))]
   \<and> CustomPDE rewrite (PInt i) =
       Inr [(''custom_pde'',
             difference rewrite (Derivative (Apply ''u'' [Symbol ''x'']) (Symbol ''x'') 2)
               (Integer i))]
   \<and> CustomPDE rewrite (PExpr e) =
       Inr [(''custom_pde'',
             difference rewrite (Derivative (Apply ''u'' [Symbol ''x'']) (Symbol ''x'') 2) e)]
   \<and> CustomPDE rewrite (PBool b) = Inl TypeError
   \<and> CustomPDE rewrite PNone = Inl TypeError
   \<and> CustomPDE rewrite (PList vs) = Inl TypeError"
proof -
  have args: "star_input_variables = [Symbol ''x'']"
    by (simp add: star_input_variables_def input_variables_def)
  have other: "source_term v = Inr v" if "type_of v \<notin> {T_str, T_float, T_int}" for v
    using that by (simp add: source_term_def)
  have a: "source_term (PStr s) = Inr (PExpr (Apply s [Symbol ''x'']))"
    by (simp add: source_term_def args)
  have b: "source_term (PFloat r) = Inr (PExpr (Float r))"
    by (simp add: source_term_def)
  have c: "source_term (PInt i) = Inr (PExpr (Integer i))"
    by (simp add: source_term_def)
  have d: "type_of f \<notin> {T_str, T_float, T_int} \<longrightarrow> source_term f = Inr f"
    by (simp add: other)
  have e1: "CustomPDE rewrite (PStr s) =
       Inr [(''custom_pde'',
             Sub (Derivative (Apply ''u'' [Symbol ''x'']) (Symbol ''x'') 2)
               (Apply s [Symbol ''x'']))]"
    by (simp add: CustomPDE_def a args difference_def numeral_2_eq_2)
  have e2: "CustomPDE rewrite (PFloat r) =
       Inr [(''custom_pde'',
             difference rewrite (Derivative (Apply ''u'' [Symbol ''x'']) (Symbol ''x'') 2)
               (Float r))]"
    by (simp add: CustomPDE_def b args)
  have e3: "CustomPDE rewrite (PInt i) =
       Inr [(''custom_pde'',
             difference rewrite (Derivative (Apply ''u'' [Symbol ''x'']) (Symbol ''x'') 2)
               (Integer i))]"
    by (simp add: CustomPDE_def c args)
  have e4: "CustomPDE rewrite (PExpr e) =
       Inr [(''custom_pde'',
             difference rewrite (Derivative (Apply ''u'' [Symbol ''x'']) (Symbol ''x'') 2) e)]"
    by (simp add: CustomPDE_def other args)
  have f1: "CustomPDE rewrite (PBool b) = Inl TypeError"
    by (simp add: CustomPDE_def other)
  have f2: "CustomPDE rewrite PNone = Inl TypeError"
    by (simp add: CustomPDE_def other)
  have f3: "CustomPDE rewrite (PList vs) = Inl TypeError"
    by (simp add: CustomPDE_def other)
  from a b c d e1 e2 e3 e4 f1 f2 f3 show ?thesis by blast
qed

theorem CustomPDE_source_term_and_errors_witness:
  "type_of PNone \<notin> {T_str, T_float, T_int}
   \<and> source_term PNone = Inr PNone
   \<and> CustomPDE no_rewrite PNone = Inl TypeError
   \<and> CustomPDE no_rewrite (PExpr (Symbol ''x'')) =
       Inr [(''custom_pde'',
             Sub (Derivative (Apply ''u'' [Symbol ''x'']) (Symbol ''x'') 2) (Symbol ''x''))]"
  using CustomPDE_source_term_and_errors
    [where f = PNone and rewrite = no_rewrite and e = "Symbol ''x''"]
  by (simp add: difference_def no_rewrite_def)

end
